theory Spec2Isabelle
  imports Complex_Main
begin

chapter \<open>The article analysis and scoring pipeline\<close>

text \<open>
  A shallow embedding of the scoring core of the news analyser: \<^verbatim>\<open>analyzer.py\<close>
  (class \<^verbatim>\<open>NewsAnalyzer\<close>), the helpers of \<^verbatim>\<open>utils.py\<close> it calls, and
  \<^verbatim>\<open>NewsAggregator._remove_duplicate_articles\<close> of \<^verbatim>\<open>scraper.py\<close>.

  Conventions of the model.
  \<^item> Python \<^verbatim>\<open>float\<close> values are modelled as \<^typ>\<open>real\<close>: rounding, infinities and NaN
    are outside the model. Lengths and counts are \<^typ>\<open>nat\<close>.
  \<^item> A \<^verbatim>\<open>str\<close> is a \<^typ>\<open>string\<close>. The model is exact on ASCII text: \<^verbatim>\<open>lower\<close>
    maps A..Z only, whitespace and digits are the ASCII ones, and a code point beyond
    ASCII (the rupee sign of one pattern) is carried as its UTF-8 bytes.
  \<^item> An exception is a value \<open>Inl e\<close> of a sum type; a \<^verbatim>\<open>try/except\<close> is a case
    distinction on it.
  \<^item> A dictionary with a fixed set of keys is a record whose optional keys are
    \<open>option\<close> fields (\<open>None\<close>: the key is absent).
  \<^item> What the program obtains from outside (the sentiment estimator and the sentence
    splitter of the NLP libraries, the clock, the iteration order of a Python
    \<^verbatim>\<open>set\<close>) is a field of the record \<open>env\<close>; every theorem holds for each value
    of it.
\<close>

section \<open>Strings\<close>

definition is_space :: "char \<Rightarrow> bool" where
  \<comment> \<open>\<^verbatim>\<open>str.isspace\<close> and the regex class \<^verbatim>\<open>\s\<close> on ASCII\<close>
  "is_space c = (c \<in> set [CHR 0x09, CHR 0x0A, CHR 0x0B, CHR 0x0C, CHR 0x0D,
                           CHR 0x1C, CHR 0x1D, CHR 0x1E, CHR 0x1F, CHR 0x20])"

definition is_digit :: "char \<Rightarrow> bool" where
  \<comment> \<open>the regex class \<^verbatim>\<open>\d\<close> on ASCII\<close>
  "is_digit c = (c \<in> set ''0123456789'')"

definition lower_char :: "char \<Rightarrow> char" where
  "lower_char c =
     (case map_of (zip ''ABCDEFGHIJKLMNOPQRSTUVWXYZ'' ''abcdefghijklmnopqrstuvwxyz'') c of
        Some d \<Rightarrow> d
      | None \<Rightarrow> c)"

definition upper_char :: "char \<Rightarrow> char" where
  "upper_char c =
     (case map_of (zip ''abcdefghijklmnopqrstuvwxyz'' ''ABCDEFGHIJKLMNOPQRSTUVWXYZ'') c of
        Some d \<Rightarrow> d
      | None \<Rightarrow> c)"

definition lower :: "string \<Rightarrow> string" where
  \<comment> \<open>\<^verbatim>\<open>s.lower()\<close>\<close>
  "lower s = map lower_char s"

fun starts_with :: "string \<Rightarrow> string \<Rightarrow> bool" where
  "starts_with s [] = True"
| "starts_with [] (p # ps) = False"
| "starts_with (c # cs) (p # ps) = (c = p \<and> starts_with cs ps)"

fun contains :: "string \<Rightarrow> string \<Rightarrow> bool" where
  \<comment> \<open>\<^verbatim>\<open>needle in s\<close>\<close>
  "contains [] needle = (needle = [])"
| "contains (c # cs) needle = (starts_with (c # cs) needle \<or> contains cs needle)"

fun split_acc :: "string \<Rightarrow> string \<Rightarrow> string list" where
  "split_acc cur [] = (if cur = [] then [] else [cur])"
| "split_acc cur (c # cs) =
     (if is_space c then (if cur = [] then split_acc [] cs else cur # split_acc [] cs)
      else split_acc (cur @ [c]) cs)"

definition split :: "string \<Rightarrow> string list" where
  \<comment> \<open>\<^verbatim>\<open>s.split()\<close>: the maximal runs of non-whitespace characters\<close>
  "split s = split_acc [] s"

definition strip :: "string \<Rightarrow> string" where
  \<comment> \<open>\<^verbatim>\<open>s.strip()\<close>\<close>
  "strip s = rev (dropWhile is_space (rev (dropWhile is_space s)))"

fun join :: "string \<Rightarrow> string list \<Rightarrow> string" where
  \<comment> \<open>\<^verbatim>\<open>sep.join(parts)\<close>\<close>
  "join sep [] = []"
| "join sep [p] = p"
| "join sep (p # q # ps) = p @ sep @ join sep (q # ps)"

fun replace :: "string \<Rightarrow> string \<Rightarrow> string \<Rightarrow> string" where
  \<comment> \<open>\<^verbatim>\<open>s.replace(old, new)\<close> for a non-empty \<^verbatim>\<open>old\<close>: leftmost occurrences, not overlapping\<close>
  "replace [] old new = []"
| "replace (c # cs) old new =
     (if old \<noteq> [] \<and> starts_with (c # cs) old
      then new @ replace (drop (length old) (c # cs)) old new
      else c # replace cs old new)"

definition digit_val :: "char \<Rightarrow> nat" where
  "digit_val c = (case map_of (zip ''0123456789'' [0, 1, 2, 3, 4, 5, 6, 7, 8, 9]) c of
                    Some d \<Rightarrow> d
                  | None \<Rightarrow> 0)"

definition digits_val :: "string \<Rightarrow> nat" where
  "digits_val s = foldl (\<lambda>a c. 10 * a + digit_val c) 0 s"

definition float_of_str :: "string \<Rightarrow> real option" where
  \<comment> \<open>\<^verbatim>\<open>float(s)\<close> on the decimal literals the patterns below capture (digits, and an
      optional fraction); \<open>None\<close> is \<^verbatim>\<open>ValueError\<close>. Signs, exponents and the other
      forms \<^verbatim>\<open>float\<close> accepts never reach it.\<close>
  "float_of_str s =
     (let ip = takeWhile is_digit s; r = dropWhile is_digit s in
      if ip = [] then None
      else if r = [] then Some (real (digits_val ip))
      else if hd r = CHR ''.'' \<and> tl r \<noteq> [] \<and> list_all is_digit (tl r)
      then Some (real (digits_val ip) + real (digits_val (tl r)) / 10 ^ length (tl r))
      else None)"



section \<open>Regular expressions\<close>

text \<open>
  The patterns of the program, as a datatype, and the backtracking matcher of
  \<^verbatim>\<open>re\<close>: \<open>rm r s\<close> lists the rests of \<open>s\<close> after each way \<open>r\<close> matches a prefix of
  \<open>s\<close>, in the order in which the matcher tries them (greedy repetition, left
  alternative first). Every pattern is compiled with \<^verbatim>\<open>re.IGNORECASE\<close>, so a literal
  matches up to case.
\<close>

datatype regex =
    Eps
  | Chr char
  | Digit
  | Space
  | Seq regex regex
  | Alt regex regex
  | Opt regex
  | Star regex

fun star_iter :: "(string \<Rightarrow> string list) \<Rightarrow> nat \<Rightarrow> string \<Rightarrow> string list" where
  "star_iter f 0 s = [s]"
| "star_iter f (Suc n) s =
     concat (map (\<lambda>t. if length t < length s then star_iter f n t else []) (f s)) @ [s]"

primrec rm :: "regex \<Rightarrow> string \<Rightarrow> string list" where
  "rm Eps s = [s]"
| "rm (Chr c) s =
     (case s of [] \<Rightarrow> [] | d # ds \<Rightarrow> if lower_char d = lower_char c then [ds] else [])"
| "rm Digit s = (case s of [] \<Rightarrow> [] | d # ds \<Rightarrow> if is_digit d then [ds] else [])"
| "rm Space s = (case s of [] \<Rightarrow> [] | d # ds \<Rightarrow> if is_space d then [ds] else [])"
| "rm (Seq a b) s = concat (map (rm b) (rm a s))"
| "rm (Alt a b) s = rm a s @ rm b s"
| "rm (Opt a) s = rm a s @ [s]"
| "rm (Star a) s = star_iter (rm a) (length s) s"

definition Plus :: "regex \<Rightarrow> regex" where
  "Plus a = Seq a (Star a)"

definition Str :: "string \<Rightarrow> regex" where
  "Str s = foldr (\<lambda>c r. Seq (Chr c) r) s Eps"

text \<open>
  A pattern with one capturing group is the triple of what precedes the group, the
  group and what follows it. \<open>match_at\<close> is \<^verbatim>\<open>pattern.match\<close> at the start of \<open>s\<close>:
  the captured text and the number of characters consumed, for the first way to match.
\<close>

type_synonym pattern = "regex \<times> regex \<times> regex"

definition match_at :: "pattern \<Rightarrow> string \<Rightarrow> (string \<times> nat) option" where
  "match_at p s =
     (case p of (pre, grp, suf) \<Rightarrow>
        (case concat (map (\<lambda>s1. concat (map (\<lambda>s2. map (\<lambda>s3.
                 (take (length s1 - length s2) s1, length s - length s3))
               (rm suf s2)) (rm grp s1))) (rm pre s)) of
           [] \<Rightarrow> None
         | m # _ \<Rightarrow> Some m))"

fun findall_from :: "pattern \<Rightarrow> nat \<Rightarrow> string \<Rightarrow> string list" where
  \<comment> \<open>the scan of \<^verbatim>\<open>re.findall\<close>; \<open>skip\<close> characters belong to the previous match\<close>
  "findall_from p skip [] =
     (if skip = 0 then (case match_at p [] of None \<Rightarrow> [] | Some (cap, n) \<Rightarrow> [cap]) else [])"
| "findall_from p skip (c # cs) =
     (if skip = 0
      then (case match_at p (c # cs) of
              None \<Rightarrow> findall_from p 0 cs
            | Some (cap, n) \<Rightarrow> cap # findall_from p (n - 1) cs)
      else findall_from p (skip - 1) cs)"

definition findall :: "pattern \<Rightarrow> string \<Rightarrow> string list" where
  "findall p s = findall_from p 0 s"

definition number :: regex where
  \<comment> \<open>\<^verbatim>\<open>\d+(?:\.\d+)?\<close>\<close>
  "number = Seq (Plus Digit) (Opt (Seq (Chr CHR ''.'') (Plus Digit)))"

definition grouped_number :: regex where
  \<comment> \<open>\<^verbatim>\<open>\d+(?:,\d+)*(?:\.\d+)?\<close>\<close>
  "grouped_number =
     Seq (Plus Digit)
       (Seq (Star (Seq (Chr CHR '','') (Plus Digit)))
            (Opt (Seq (Chr CHR ''.'') (Plus Digit))))"

definition suffixed :: "regex \<Rightarrow> pattern" where
  \<comment> \<open>\<^verbatim>\<open>(\d+(?:\.\d+)?)\s*(?:unit)\<close>\<close>
  "suffixed unit = (Eps, number, Seq (Star Space) unit)"

definition prefixed :: "string \<Rightarrow> pattern" where
  \<comment> \<open>\<^verbatim>\<open>sign\s*(\d+(?:,\d+)*(?:\.\d+)?)\<close>\<close>
  "prefixed sign = (Seq (Str sign) (Star Space), grouped_number, Eps)"

definition rupee :: string where
  \<comment> \<open>U+20B9 in UTF-8\<close>
  "rupee = [CHR 0xE2, CHR 0x82, CHR 0xB9]"

definition patterns :: "pattern list" where
  "patterns =
     [suffixed (Alt (Seq (Str ''crore'') (Opt (Chr CHR ''s'')))
                    (Seq (Str ''cr'') (Opt (Chr CHR ''.'')))),
      suffixed (Alt (Seq (Str ''lakh'') (Opt (Chr CHR ''s''))) (Str ''lakh'')),
      suffixed (Alt (Seq (Str ''thousand'') (Opt (Chr CHR ''s''))) (Str ''k'')),
      suffixed (Alt (Seq (Str ''million'') (Opt (Chr CHR ''s'')))
                    (Seq (Str ''mn'') (Opt (Chr CHR ''.'')))),
      suffixed (Alt (Seq (Str ''billion'') (Opt (Chr CHR ''s'')))
                    (Seq (Str ''bn'') (Opt (Chr CHR ''.'')))),
      prefixed rupee,
      prefixed ''$'']"

definition percentage_pattern :: pattern where
  \<comment> \<open>\<^verbatim>\<open>(\d+(?:\.\d+)?)\s*(?:%|percent|per cent)\<close>\<close>
  "percentage_pattern =
     suffixed (Alt (Str ''%'') (Alt (Str ''percent'') (Str ''per cent'')))"

section \<open>utils.py\<close>

definition extract_numbers_from_text :: "string \<Rightarrow> real list" where
  \<comment> \<open>a match that \<^verbatim>\<open>float\<close> rejects is skipped (\<^verbatim>\<open>except ValueError: continue\<close>)\<close>
  "extract_numbers_from_text text =
     concat (map (\<lambda>p. concat (map (\<lambda>m.
        (case float_of_str (replace m '','' '''') of None \<Rightarrow> [] | Some num \<Rightarrow> [num]))
        (findall p text))) patterns)"

definition is_word_char :: "char \<Rightarrow> bool" where
  \<comment> \<open>the regex class \<^verbatim>\<open>\w\<close> on ASCII\<close>
  "is_word_char c =
     (c \<in> set ''abcdefghijklmnopqrstuvwxyzABCDEFGHIJKLMNOPQRSTUVWXYZ0123456789_'')"

fun collapse_from :: "bool \<Rightarrow> string \<Rightarrow> string" where
  \<comment> \<open>\<open>in_run\<close>: the previous character was whitespace, already replaced\<close>
  "collapse_from in_run [] = []"
| "collapse_from in_run (c # cs) =
     (if is_space c
      then (if in_run then collapse_from True cs else CHR '' '' # collapse_from True cs)
      else c # collapse_from False cs)"

definition collapse_spaces :: "string \<Rightarrow> string" where
  \<comment> \<open>\<^verbatim>\<open>re.sub(r'\s+', ' ', s)\<close>: each run of whitespace becomes one space\<close>
  "collapse_spaces s = collapse_from False s"

definition suffixes_to_remove :: "string list" where
  "suffixes_to_remove =
     ['' limited'', '' ltd'', '' ltd.'', '' corporation'', '' corp'', '' corp.'',
      '' company'', '' co'', '' co.'', '' inc'', '' inc.'', '' llc'',
      '' private limited'', '' pvt ltd'', '' pvt. ltd.'',
      '' public limited'', '' plc'']"

definition clean_company_name :: "string \<Rightarrow> string" where
  "clean_company_name name =
     (let name_clean = foldl (\<lambda>n suffix. replace n suffix []) (lower name) suffixes_to_remove;
          name_clean = map (\<lambda>c. if is_word_char c \<or> is_space c then c else CHR '' '') name_clean
      in strip (collapse_spaces name_clean))"

text \<open>
  What the program takes from outside. \<open>sentiment env text\<close> is
  \<^verbatim>\<open>TextBlob(text).sentiment\<close>, polarity and subjectivity, and \<open>sent_tokenize env\<close> the
  sentence splitter; \<open>Inl msg\<close> is an exception \<open>e\<close> with \<^verbatim>\<open>str(e) = msg\<close>.
  \<open>now env\<close> is \<^verbatim>\<open>datetime.now()\<close>, in microseconds. \<open>str_hash env\<close> fixes the order
  in which a Python \<^verbatim>\<open>set\<close> of strings is iterated: \<^verbatim>\<open>list(set(xs))\<close> holds the
  distinct elements of \<open>xs\<close> in an order the language leaves open.
\<close>

record env =
  sentiment :: "string \<Rightarrow> string + real \<times> real"
  sent_tokenize :: "string \<Rightarrow> string + string list"
  now :: int
  str_hash :: "string \<Rightarrow> nat"

definition list_set :: "env \<Rightarrow> string list \<Rightarrow> string list" where
  \<comment> \<open>\<^verbatim>\<open>list(set(xs))\<close>\<close>
  "list_set e xs = sort_key (str_hash e) (remdups xs)"

definition extract_company_variants :: "env \<Rightarrow> string \<Rightarrow> string list" where
  "extract_company_variants e company_name =
     (let variants = [company_name];
          clean_name = clean_company_name company_name;
          variants = (if clean_name \<noteq> [] \<and> clean_name \<noteq> lower company_name
                      then variants @ [clean_name] else variants);
          words = split clean_name;
          acronym = map (\<lambda>word. upper_char (hd word)) (filter (\<lambda>word. word \<noteq> []) words);
          variants = (if length words > 1 \<and> length acronym > 1
                      then variants @ [acronym] else variants);
          variants = (if length words \<ge> 2
                      then variants @ [join '' '' (take (min 3 (length words)) words)]
                      else variants)
      in list_set e variants)"

datatype py_exception = ZeroDivisionError | TypeError | ValueError


definition calculate_text_similarity :: "string \<Rightarrow> string \<Rightarrow> real" where
  "calculate_text_similarity text1 text2 =
     (if text1 = [] \<or> text2 = [] then 0
      else let text1_words = set (split (lower text1));
               text2_words = set (split (lower text2));
               intersection = card (text1_words \<inter> text2_words);
               union = card (text1_words \<union> text2_words)
           in if union > 0 then real intersection / real union else 0)"

text \<open>
  \<open>keywords_found\<close> is a dictionary from a category to the list of its phrases, in
  insertion order: an association list.
\<close>

type_synonym keyword_dict = "(string \<times> string list) list"

definition categorize_news_impact :: "keyword_dict \<Rightarrow> real \<Rightarrow> string" where
  "categorize_news_impact kws score =
     (let positive_count = length (case map_of kws ''positive'' of
                                     None \<Rightarrow> [] | Some ws \<Rightarrow> ws);
          negative_count = length (case map_of kws ''negative'' of
                                     None \<Rightarrow> [] | Some ws \<Rightarrow> ws)
      in if positive_count > negative_count \<and> score > 0.1 then ''Highly Positive''
         else if positive_count > 0 \<and> score > 0.05 then ''Positive''
         else if negative_count > positive_count \<and> score < - 0.1 then ''Highly Negative''
         else if negative_count > 0 \<and> score < - 0.05 then ''Negative''
         else ''Neutral'')"

text \<open>
  A publication date is a \<^verbatim>\<open>datetime\<close>, in microseconds: naive, as the feed parser
  builds it, or aware of its time zone, as the article extractor may return it.
  Subtracting an aware one from \<^verbatim>\<open>datetime.now()\<close> raises \<^verbatim>\<open>TypeError\<close>.
\<close>

datatype datetime = Naive int | Aware int

record company_match =
  symbol :: string
  company_name :: string
  matched_variant :: string
  confidence :: real

text \<open>
  The analysis dictionary. A field is \<open>None\<close> while its key is absent; for
  \<open>published_date\<close>, which every reader takes with \<^verbatim>\<open>get\<close>, \<open>None\<close> is also the
  value \<^verbatim>\<open>None\<close>.
\<close>

record analysis =
  article_id :: "string option"
  title :: "string option"
  source :: "string option"
  published_date :: "datetime option"
  url :: "string option"
  error :: "string option"
  content_length :: "nat option"
  sentiment_score :: "real option"
  sentiment_subjectivity :: "real option"
  sentiment_label :: "string option"
  positive_sentences :: "nat option"
  negative_sentences :: "nat option"
  neutral_sentences :: "nat option"
  sentence_sentiments :: "real list option"
  keywords_found :: "keyword_dict option"
  keyword_density :: "real option"
  total_investment_keywords :: "nat option"
  matched_companies :: "company_match list option"
  company_count :: "nat option"
  financial_numbers :: "real list option"
  percentages_mentioned :: "real list option"
  financial_terms :: "string list option"
  financial_density :: "real option"
  investment_score :: "real option"
  impact_category :: "string option"
  relevance_score :: "real option"

definition no_keys :: analysis where
  \<comment> \<open>the empty dictionary\<close>
  "no_keys =
     \<lparr>article_id = None, title = None, source = None, published_date = None, url = None,
      error = None, content_length = None, sentiment_score = None,
      sentiment_subjectivity = None, sentiment_label = None, positive_sentences = None,
      negative_sentences = None, neutral_sentences = None, sentence_sentiments = None,
      keywords_found = None, keyword_density = None, total_investment_keywords = None,
      matched_companies = None, company_count = None, financial_numbers = None,
      percentages_mentioned = None, financial_terms = None, financial_density = None,
      investment_score = None, impact_category = None, relevance_score = None\<rparr>"

definition override :: "'a option \<Rightarrow> 'a option \<Rightarrow> 'a option" where
  "override old new = (case new of None \<Rightarrow> old | Some v \<Rightarrow> Some v)"

definition update :: "analysis \<Rightarrow> analysis \<Rightarrow> analysis" where
  \<comment> \<open>\<^verbatim>\<open>a.update(b)\<close>: the keys of \<open>b\<close> are set in \<open>a\<close>\<close>
  "update a b =
     \<lparr>article_id = override (article_id a) (article_id b),
      title = override (title a) (title b),
      source = override (source a) (source b),
      published_date = override (published_date a) (published_date b),
      url = override (url a) (url b),
      error = override (error a) (error b),
      content_length = override (content_length a) (content_length b),
      sentiment_score = override (sentiment_score a) (sentiment_score b),
      sentiment_subjectivity = override (sentiment_subjectivity a) (sentiment_subjectivity b),
      sentiment_label = override (sentiment_label a) (sentiment_label b),
      positive_sentences = override (positive_sentences a) (positive_sentences b),
      negative_sentences = override (negative_sentences a) (negative_sentences b),
      neutral_sentences = override (neutral_sentences a) (neutral_sentences b),
      sentence_sentiments = override (sentence_sentiments a) (sentence_sentiments b),
      keywords_found = override (keywords_found a) (keywords_found b),
      keyword_density = override (keyword_density a) (keyword_density b),
      total_investment_keywords =
        override (total_investment_keywords a) (total_investment_keywords b),
      matched_companies = override (matched_companies a) (matched_companies b),
      company_count = override (company_count a) (company_count b),
      financial_numbers = override (financial_numbers a) (financial_numbers b),
      percentages_mentioned = override (percentages_mentioned a) (percentages_mentioned b),
      financial_terms = override (financial_terms a) (financial_terms b),
      financial_density = override (financial_density a) (financial_density b),
      investment_score = override (investment_score a) (investment_score b),
      impact_category = override (impact_category a) (impact_category b),
      relevance_score = override (relevance_score a) (relevance_score b)\<rparr>"

definition get :: "'a option \<Rightarrow> 'a \<Rightarrow> 'a" where
  \<comment> \<open>\<^verbatim>\<open>d.get(key, default)\<close>\<close>
  "get v d = (case v of None \<Rightarrow> d | Some x \<Rightarrow> x)"

definition usec_per_day :: int where
  "usec_per_day = 86400000000"

definition credible_sources :: "string list" where
  "credible_sources = [''economic times'', ''business standard'', ''mint'', ''moneycontrol'']"

definition keyword_score :: "keyword_dict \<Rightarrow> real" where
  \<comment> \<open>the loop over \<^verbatim>\<open>keywords.items()\<close>\<close>
  "keyword_score kws =
     foldl (\<lambda>ks (category, words).
              if category = ''positive'' then ks + real (length words) * 0.1
              else if category = ''negative'' then ks + real (length words) * 0.1
              else ks + real (length words) * 0.05)
           0 kws"

definition calculate_investment_score :: "env \<Rightarrow> analysis \<Rightarrow> py_exception + real" where
  "calculate_investment_score e article_data =
     (let sentiment_weight = \<bar>get (sentiment_score article_data) 0\<bar> * 0.4;
          score = sentiment_weight
                  + min (keyword_score (get (keywords_found article_data) [])) 0.3;
          src = lower (get (source article_data) []);
          credit = (if list_ex (\<lambda>cs. contains src cs) credible_sources then 0.1 else 0)
      in case published_date article_data of
           None \<Rightarrow> Inr (min (score + credit) 1)
         | Some (Aware t) \<Rightarrow> Inl TypeError
         | Some (Naive t) \<Rightarrow>
             (let days_old = (now e - t) div usec_per_day;
                  recency_score = max 0 (real_of_int (7 - days_old) / 7) * 0.2
              in Inr (min (score + recency_score + credit) 1)))"

section \<open>config.py\<close>

definition INVESTMENT_KEYWORDS :: keyword_dict where
  "INVESTMENT_KEYWORDS =
     [(''positive'',
       [''new project'', ''expansion'', ''investment'', ''acquisition'', ''merger'',
        ''contract'', ''order'', ''partnership'', ''launch'', ''growth'', ''profit'',
        ''revenue increase'', ''earnings beat'', ''dividend'', ''buyback'',
        ''capacity expansion'', ''new facility'', ''joint venture'', ''collaboration'',
        ''funding'', ''ipo'', ''listing'', ''upgraded'', ''outperform'', ''buy rating'',
        ''tie-up'', ''agreement'', ''approval'', ''license'', ''patent'', ''innovation'',
        ''technology'', ''digital transformation'', ''renewable energy'', ''green'',
        ''sustainable'', ''export'', ''international expansion'']),
      (''negative'',
       [''loss'', ''decline'', ''fall'', ''drop'', ''downgrade'', ''sell rating'',
        ''bankruptcy'', ''debt'', ''lawsuit'', ''fine'', ''penalty'', ''investigation'',
        ''scandal'', ''fraud'', ''closure'', ''layoff'', ''restructuring'', ''warning'',
        ''miss'', ''disappointing'', ''weak'', ''poor performance'', ''regulatory action'',
        ''suspension'', ''delisting'', ''default'', ''impairment'', ''write-off'']),
      (''neutral'',
       [''announcement'', ''statement'', ''results'', ''quarterly'', ''annual'',
        ''meeting'', ''conference'', ''presentation'', ''update'', ''report'',
        ''guidance'', ''outlook'', ''forecast'', ''management change'', ''appointment''])]"

definition min_article_length :: nat where
  "min_article_length = 100"

definition relevance_threshold :: real where
  "relevance_threshold = 0.3"

section \<open>analyzer.py\<close>

definition investment_keywords :: keyword_dict where
  \<comment> \<open>the lexicon after \<^verbatim>\<open>NewsAnalyzer.__init__\<close> has extended two of its lists\<close>
  "investment_keywords =
     map (\<lambda>(category, kws).
            (category,
             kws @ (if category = ''positive''
                    then [''breakthrough'', ''milestone'', ''success'', ''achievement'', ''win'',
                          ''record'', ''strong performance'', ''beat expectations'', ''exceed'',
                          ''surge'', ''rally'', ''boost'', ''positive outlook'', ''optimistic'',
                          ''upgrade'', ''recommend'', ''target price'', ''bull'', ''momentum'']
                    else if category = ''negative''
                    then [''bear'', ''pessimistic'', ''concern'', ''worry'', ''risk'', ''threat'',
                          ''challenge'', ''struggle'', ''disappointing'', ''miss estimates'',
                          ''cut'', ''reduce'', ''lower'', ''below expectations'', ''uncertainty'']
                    else [])))
         INVESTMENT_KEYWORDS"

text \<open>
  An article, as the scraper hands it over: a dictionary whose keys may be absent
  (\<open>None\<close>). The text fields hold strings.
\<close>

record article =
  art_url :: "string option"
  art_link :: "string option"
  art_title :: "string option"
  art_source :: "string option"
  art_published_date :: "datetime option"
  art_content :: "string option"
  art_description :: "string option"
  art_summary :: "string option"

definition extract_text_content :: "article \<Rightarrow> string" where
  "extract_text_content a =
     (let content_parts =
            concat (map (\<lambda>field. case field of None \<Rightarrow> []
                                   | Some v \<Rightarrow> if v \<noteq> [] then [v] else [])
                        [art_content a, art_description a, art_summary a, art_title a])
      in strip (join '' '' content_parts))"

definition get_sentiment_label :: "real \<Rightarrow> string" where
  "get_sentiment_label polarity =
     (if polarity > 0.1 then ''Positive''
      else if polarity < - 0.1 then ''Negative''
      else ''Neutral'')"

fun sentence_polarities :: "env \<Rightarrow> string list \<Rightarrow> string + real list" where
  \<comment> \<open>the loop over the sentences; it stops at the first exception\<close>
  "sentence_polarities e [] = Inr []"
| "sentence_polarities e (sentence # rest) =
     (if length (split sentence) > 3
      then (case sentiment e sentence of
              Inl msg \<Rightarrow> Inl msg
            | Inr (p, _) \<Rightarrow>
                (case sentence_polarities e rest of
                   Inl msg \<Rightarrow> Inl msg
                 | Inr ps \<Rightarrow> Inr (p # ps)))
      else sentence_polarities e rest)"

definition sentiment_failure :: "string \<Rightarrow> analysis" where
  \<comment> \<open>the dictionary returned by the \<^verbatim>\<open>except\<close> branch of \<^verbatim>\<open>analyze_sentiment\<close>\<close>
  "sentiment_failure msg =
     no_keys\<lparr>sentiment_score := Some 0, sentiment_subjectivity := Some 0,
             sentiment_label := Some ''Neutral'', error := Some msg\<rparr>"

definition analyze_sentiment :: "env \<Rightarrow> string \<Rightarrow> analysis" where
  "analyze_sentiment e text =
     (case sentiment e text of
        Inl msg \<Rightarrow> sentiment_failure msg
      | Inr (polarity, subjectivity) \<Rightarrow>
          (case sent_tokenize e text of
             Inl msg \<Rightarrow> sentiment_failure msg
           | Inr sentences \<Rightarrow>
               (case sentence_polarities e sentences of
                  Inl msg \<Rightarrow> sentiment_failure msg
                | Inr sents \<Rightarrow>
                    (let positive = length (filter (\<lambda>s. s > 0.1) sents);
                         negative = length (filter (\<lambda>s. s < - 0.1) sents)
                     in no_keys\<lparr>sentiment_score := Some polarity,
                                sentiment_subjectivity := Some subjectivity,
                                sentiment_label := Some (get_sentiment_label polarity),
                                positive_sentences := Some positive,
                                negative_sentences := Some negative,
                                neutral_sentences := Some (length sents - positive - negative),
                                sentence_sentiments := Some sents\<rparr>))))"

definition extract_investment_keywords :: "env \<Rightarrow> string \<Rightarrow> analysis" where
  "extract_investment_keywords e text =
     (let text_lower = lower text;
          found = map (\<lambda>(category, kws).
                         (category,
                          list_set e (filter (\<lambda>keyword. contains text_lower (lower keyword)) kws)))
                      investment_keywords;
          total_words = length (split text);
          total_keywords = sum_list (map (\<lambda>(category, kw_list). length kw_list) found);
          density = (if total_words > 0 then real total_keywords / real total_words else 0)
      in no_keys\<lparr>keywords_found := Some found,
                 keyword_density := Some density,
                 total_investment_keywords := Some total_keywords\<rparr>)"

fun enumerate_from :: "nat \<Rightarrow> 'a list \<Rightarrow> (nat \<times> 'a) list" where
  "enumerate_from i [] = []"
| "enumerate_from i (x # xs) = (i, x) # enumerate_from (Suc i) xs"

definition get_words_around_match :: "string \<Rightarrow> string \<Rightarrow> nat \<Rightarrow> string list" where
  "get_words_around_match text match window =
     (let words = split text;
          match_positions =
            map fst (filter (\<lambda>(i, word). contains word match) (enumerate_from 0 words))
      in concat (map (\<lambda>pos. let start = pos - window;
                                 stop = min (length words) (pos + window + 1)
                             in drop start (take stop words))
                     match_positions))"

definition context_words :: "string list" where
  "context_words =
     [''company'', ''limited'', ''ltd'', ''corporation'', ''inc'', ''announces'', ''reports'']"

definition common_words :: "string list" where
  "common_words = [''the'', ''and'', ''or'', ''in'', ''on'', ''at'', ''to'', ''for'', ''of'', ''with'']"

definition calculate_match_confidence :: "string \<Rightarrow> string \<Rightarrow> string \<Rightarrow> real" where
  "calculate_match_confidence text variant full_name =
     (let text_lower = lower text;
          variant_lower = lower variant;
          conf = 0;
          conf = (if contains text_lower variant_lower then conf + 0.4 else conf);
          conf = (if contains text_lower (lower full_name) then conf + 0.3 else conf);
          words_around_match = get_words_around_match text_lower variant_lower 10;
          conf = foldl (\<lambda>c word. if word \<in> set words_around_match then c + 0.1 else c)
                       conf context_words;
          conf = (if variant_lower \<in> set common_words then conf - 0.5 else conf)
      in min conf 1)"

record company_row =
  row_company_name :: string
  row_symbol :: string

fun scan_variants :: "string \<Rightarrow> string \<Rightarrow> string \<Rightarrow> string list \<Rightarrow> company_match option" where
  \<comment> \<open>the loop over the variants of one company: the match it appends, if any\<close>
  "scan_variants text name ticker [] = None"
| "scan_variants text name ticker (variant # rest) =
     (if length variant > 2 \<and> contains (lower text) (lower variant)
      then (let conf = calculate_match_confidence text variant name
            in if conf > 0.3
               then Some \<lparr>symbol = ticker, company_name = name,
                          matched_variant = variant, confidence = conf\<rparr>
               else scan_variants text name ticker rest)
      else scan_variants text name ticker rest)"

fun unique_insert :: "company_match \<Rightarrow> (string \<times> company_match) list
                      \<Rightarrow> (string \<times> company_match) list" where
  \<comment> \<open>\<^verbatim>\<open>unique_companies[symbol] = company\<close>, unless the symbol has a match of
      confidence at least as high; a key that is overwritten keeps its place\<close>
  "unique_insert c [] = [(symbol c, c)]"
| "unique_insert c ((s, d) # rest) =
     (if s = symbol c
      then (if confidence c > confidence d then (s, c) # rest else (s, d) # rest)
      else (s, d) # unique_insert c rest)"

definition match_companies :: "env \<Rightarrow> string \<Rightarrow> company_row list \<Rightarrow> analysis" where
  "match_companies e text companies_df =
     (let matched =
            concat (map (\<lambda>row.
              if row_company_name row = [] then []
              else (let variants = extract_company_variants e (row_company_name row)
                                   @ (if row_symbol row \<noteq> [] then [row_symbol row] else [])
                    in case scan_variants text (row_company_name row) (row_symbol row) variants of
                         None \<Rightarrow> []
                       | Some m \<Rightarrow> [m]))
              companies_df);
          unique_companies = foldl (\<lambda>u c. unique_insert c u) [] matched;
          sorted_companies = sort_key (\<lambda>c. - confidence c) (map snd unique_companies)
      in no_keys\<lparr>matched_companies := Some (take 5 sorted_companies),
                 company_count := Some (length sorted_companies)\<rparr>)"

definition financial_terms_list :: "string list" where
  "financial_terms_list =
     [''revenue'', ''profit'', ''loss'', ''earnings'', ''ebitda'', ''dividend'',
      ''market cap'', ''valuation'', ''investment'', ''funding'', ''debt'',
      ''cash flow'', ''assets'', ''liabilities'', ''equity'', ''roe'', ''roa'',
      ''pe ratio'', ''eps'', ''book value'', ''sales'', ''growth'']"

fun floats :: "string list \<Rightarrow> py_exception + real list" where
  \<comment> \<open>\<^verbatim>\<open>[float(p) for p in percentages]\<close>\<close>
  "floats [] = Inr []"
| "floats (p # ps) =
     (case float_of_str p of
        None \<Rightarrow> Inl ValueError
      | Some x \<Rightarrow> (case floats ps of Inl err \<Rightarrow> Inl err | Inr xs \<Rightarrow> Inr (x # xs)))"

definition extract_financial_info :: "string \<Rightarrow> py_exception + analysis" where
  "extract_financial_info text =
     (let numbers = extract_numbers_from_text text in
      case floats (findall percentage_pattern text) of
        Inl err \<Rightarrow> Inl err
      | Inr percentages \<Rightarrow>
          (let text_lower = lower text;
               financial_mentions = filter (\<lambda>term. contains text_lower term) financial_terms_list
           in if text \<noteq> []
              then (if length (split text) = 0 then Inl ZeroDivisionError
                    else Inr (no_keys\<lparr>financial_numbers := Some numbers,
                                      percentages_mentioned := Some percentages,
                                      financial_terms := Some financial_mentions,
                                      financial_density :=
                                        Some (real (length financial_mentions)
                                              / real (length (split text)))\<rparr>))
              else Inr (no_keys\<lparr>financial_numbers := Some numbers,
                                percentages_mentioned := Some percentages,
                                financial_terms := Some financial_mentions,
                                financial_density := Some 0\<rparr>)))"

definition calculate_relevance_score :: "analysis \<Rightarrow> real" where
  "calculate_relevance_score a =
     (let kw_score = min (real (get (total_investment_keywords a) 0) * 0.05) 0.3;
          sentiment_strength = \<bar>get (sentiment_score a) 0\<bar> * 0.25;
          company_score = min (real (get (company_count a) 0) * 0.1) 0.2;
          financial_score = get (financial_density a) 0 * 0.15;
          quality_score = min (real (get (content_length a) 0) / 1000) 1 * 0.1
      in min (kw_score + sentiment_strength + company_score + financial_score + quality_score) 1)"

definition identity_of :: "article \<Rightarrow> analysis" where
  \<comment> \<open>the dictionary \<^verbatim>\<open>analyze_article\<close> starts from\<close>
  "identity_of a =
     no_keys\<lparr>article_id := Some (get (art_url a) (get (art_link a) [])),
             title := Some (get (art_title a) []),
             source := Some (get (art_source a) []),
             published_date := art_published_date a,
             url := Some (get (art_url a) (get (art_link a) []))\<rparr>"

definition analyze_article :: "env \<Rightarrow> company_row list option \<Rightarrow> article \<Rightarrow> py_exception + analysis" where
  "analyze_article e companies_df a =
     (let an = identity_of a;
          content = extract_text_content a
      in if content = [] \<or> length content < min_article_length
         then Inr (an\<lparr>error := Some ''Insufficient content''\<rparr>)
         else
           (let an = an\<lparr>content_length := Some (length content)\<rparr>;
                an = update an (analyze_sentiment e content);
                an = update an (extract_investment_keywords e content);
                an = (case companies_df of
                        None \<Rightarrow> an
                      | Some df \<Rightarrow> update an (match_companies e content df))
            in case extract_financial_info content of
                 Inl err \<Rightarrow> Inl err
               | Inr financial_result \<Rightarrow>
                   (let an = update an financial_result
                    in case calculate_investment_score e an of
                         Inl err \<Rightarrow> Inl err
                       | Inr score \<Rightarrow>
                           (let an = an\<lparr>investment_score := Some score\<rparr>;
                                an = an\<lparr>impact_category :=
                                          Some (categorize_news_impact
                                                  (get (keywords_found an) [])
                                                  (get (sentiment_score an) 0))\<rparr>
                            in Inr (an\<lparr>relevance_score :=
                                          Some (calculate_relevance_score an)\<rparr>)))))"




definition filter_relevant_articles :: "analysis list \<Rightarrow> real option \<Rightarrow> analysis list" where
  \<comment> \<open>\<^verbatim>\<open>list.sort(key, reverse=True)\<close> is stable: equal keys keep their order\<close>
  "filter_relevant_articles analyzed_articles min_relevance =
     (let threshold = (case min_relevance of None \<Rightarrow> relevance_threshold | Some m \<Rightarrow> m);
          relevant = filter (\<lambda>a. get (relevance_score a) 0 \<ge> threshold) analyzed_articles
      in sort_key (\<lambda>a. - get (relevance_score a) 0) relevant)"

section \<open>scraper.py\<close>

definition title_similarity :: "string \<Rightarrow> string \<Rightarrow> py_exception + real" where
  \<comment> \<open>the quotient computed in the inner loop of \<^verbatim>\<open>_remove_duplicate_articles\<close>\<close>
  "title_similarity t seen_title =
     (let inter = card (set (split t) \<inter> set (split seen_title));
          union = card (set (split t) \<union> set (split seen_title))
      in if union = 0 then Inl ZeroDivisionError else Inr (real inter / real union))"

fun is_duplicate :: "string \<Rightarrow> string list \<Rightarrow> py_exception + bool" where
  \<comment> \<open>the inner loop, which leaves at the first similar title\<close>
  "is_duplicate t [] = Inr False"
| "is_duplicate t (seen_title # rest) =
     (case title_similarity t seen_title of
        Inl err \<Rightarrow> Inl err
      | Inr similarity \<Rightarrow> if similarity > 0.7 then Inr True else is_duplicate t rest)"

fun dedup_loop :: "article list \<Rightarrow> string list \<Rightarrow> article list \<Rightarrow> py_exception + article list" where
  \<comment> \<open>the outer loop, with \<^verbatim>\<open>unique_articles\<close> and \<^verbatim>\<open>seen_titles\<close> so far\<close>
  "dedup_loop unique_articles seen_titles [] = Inr unique_articles"
| "dedup_loop unique_articles seen_titles (a # rest) =
     (let t = strip (lower (get (art_title a) []))
      in if t = [] then dedup_loop unique_articles seen_titles rest
         else (case is_duplicate t seen_titles of
                 Inl err \<Rightarrow> Inl err
               | Inr dup \<Rightarrow>
                   if dup then dedup_loop unique_articles seen_titles rest
                   else dedup_loop (unique_articles @ [a]) (seen_titles @ [t]) rest))"

definition remove_duplicate_articles :: "article list \<Rightarrow> py_exception + article list" where
  "remove_duplicate_articles articles =
     (if articles = [] then Inr [] else dedup_loop [] [] articles)"

section \<open>Notions of the specification and concrete inputs\<close>

text \<open>
  The impact category as the specification words it: a list of guarded branches,
  evaluated in order, the first one whose guard holds giving the result.
\<close>

fun first_matching :: "(bool \<times> string) list \<Rightarrow> string \<Rightarrow> string" where
  "first_matching [] d = d"
| "first_matching ((guard, r) # rest) d = (if guard then r else first_matching rest d)"

definition ImpactCategory :: "nat \<Rightarrow> nat \<Rightarrow> real \<Rightarrow> string" where
  "ImpactCategory P N score =
     first_matching
       [(P > N \<and> score > 0.1, ''Highly Positive''),
        (P > 0 \<and> score > 0.05, ''Positive''),
        (N > P \<and> score < - 0.1, ''Highly Negative''),
        (N > 0 \<and> score < - 0.05, ''Negative'')]
       ''Neutral''"

definition category_count :: "keyword_dict \<Rightarrow> string \<Rightarrow> nat" where
  \<comment> \<open>the number of matches of a category, none if the category is absent\<close>
  "category_count kws category = length (get (map_of kws category) [])"

definition quiet_env :: env where
  \<comment> \<open>an estimator that finds every text neutral, at time 0\<close>
  "quiet_env = \<lparr>sentiment = (\<lambda>t. Inr (0, 0)), sent_tokenize = (\<lambda>t. Inr [t]),
                 now = 0, str_hash = length\<rparr>"




text \<open>The text of a decimal literal: digits, and optionally a point and digits.\<close>

definition decimal :: "string \<Rightarrow> bool" where
  "decimal d \<longleftrightarrow>
     (\<exists>i f. i \<noteq> [] \<and> list_all is_digit i \<and>
        (d = i \<or> (f \<noteq> [] \<and> list_all is_digit f \<and> d = i @ CHR ''.'' # f)))"

text \<open>
  The analysis dictionary of \<^verbatim>\<open>analyze_article\<close> when the signals are in and before
  the scores are: \<open>fin\<close> is the result of \<^verbatim>\<open>extract_financial_info\<close>.
\<close>

definition signals :: "env \<Rightarrow> company_row list option \<Rightarrow> article \<Rightarrow> analysis \<Rightarrow> analysis" where
  "signals e df a fin =
     (let content = extract_text_content a;
          an = (identity_of a)\<lparr>content_length := Some (length content)\<rparr>;
          an = update an (analyze_sentiment e content);
          an = update an (extract_investment_keywords e content);
          an = (case df of None \<Rightarrow> an | Some d \<Rightarrow> update an (match_companies e content d))
      in update an fin)"


definition sample_article :: article where
  "sample_article =
     \<lparr>art_url = Some ''https://example.com/test-article'',
      art_link = None,
      art_title = Some ''Reliance Industries announces major investment in renewable energy sector'',
      art_source = Some ''Economic Times'',
      art_published_date = None,
      art_content = Some ''Reliance Industries Limited has announced a significant investment of Rs 75,000 crores in renewable energy projects. The company plans to expand its green energy portfolio with new solar and wind projects. This move is expected to boost the company's growth prospects and align with India's carbon neutrality goals. Market experts have upgraded their rating for RIL stock.'',
      art_description = None,
      art_summary = None\<rparr>"

definition sample_text :: string where
  "sample_text = ''Reliance Industries Limited has announced a significant investment of Rs 75,000 crores in renewable energy projects. The company plans to expand its green energy portfolio with new solar and wind projects. This move is expected to boost the company's growth prospects and align with India's carbon neutrality goals. Market experts have upgraded their rating for RIL stock. Reliance Industries announces major investment in renewable energy sector''"




text \<open>
  For the removal of duplicates: the key a title is compared by, a title that is
  missing, empty or made of whitespace only, and the Jaccard similarity of two keys,
  the quotient of the numbers of tokens they share and of tokens in either.
\<close>

definition title_key :: "article \<Rightarrow> string" where
  \<comment> \<open>\<^verbatim>\<open>article.get('title', '').lower().strip()\<close>\<close>
  "title_key a = strip (lower (get (art_title a) []))"

definition blank_title :: "article \<Rightarrow> bool" where
  "blank_title a \<longleftrightarrow> list_all is_space (get (art_title a) [])"

definition jaccard :: "string \<Rightarrow> string \<Rightarrow> real" where
  "jaccard t s =
     real (card (set (split t) \<inter> set (split s))) / real (card (set (split t) \<union> set (split s)))"

definition titled :: "string \<Rightarrow> article" where
  "titled t = \<lparr>art_url = None, art_link = None, art_title = Some t, art_source = None,
               art_published_date = None, art_content = None, art_description = None,
               art_summary = None\<rparr>"

definition untitled :: article where
  "untitled = \<lparr>art_url = Some ''https://example.com/untitled'', art_link = None,
                art_title = None, art_source = None, art_published_date = None,
                art_content = None, art_description = None, art_summary = None\<rparr>"

text \<open>
  For the matching of companies: the number of context words found around the
  occurrences of a variant, each of which adds 0.1 to the confidence; a variant that
  occurs in the text and is long enough to count (a hit); and a hit that is accepted,
  its confidence being above the threshold of inclusion.
\<close>

definition satisfied_context_words :: "string \<Rightarrow> string \<Rightarrow> nat" where
  "satisfied_context_words text variant =
     length (filter (\<lambda>word. word \<in> set (get_words_around_match (lower text) (lower variant) 10))
                    context_words)"

definition is_hit :: "string \<Rightarrow> string \<Rightarrow> bool" where
  "is_hit text variant \<longleftrightarrow> length variant > 2 \<and> contains (lower text) (lower variant)"

definition accepted :: "string \<Rightarrow> string \<Rightarrow> string \<Rightarrow> bool" where
  "accepted text name variant \<longleftrightarrow>
     is_hit text variant \<and> calculate_match_confidence text variant name > 0.3"

text \<open>
  The scan of the variants of one company as the specification words it: the first
  hit decides, whatever its confidence.
\<close>

definition scan_first_hit :: "string \<Rightarrow> string \<Rightarrow> string \<Rightarrow> string list \<Rightarrow> company_match option" where
  "scan_first_hit text name ticker variants =
     (case find (is_hit text) variants of
        None \<Rightarrow> None
      | Some variant \<Rightarrow>
          (let conf = calculate_match_confidence text variant name
           in if conf > 0.3
              then Some \<lparr>symbol = ticker, company_name = name,
                         matched_variant = variant, confidence = conf\<rparr>
              else None))"

definition refinery_row :: company_row where
  "refinery_row = \<lparr>row_company_name = ''Federal Oil Refineries'', row_symbol = ''FEDOIL''\<rparr>"

definition refinery_text :: string where
  "refinery_text = ''Analysts see upside for FEDOIL shares''"

text \<open>
  The text of the sample article in three parts, the middle one holding its only
  digits, and the company table of the end-to-end example.
\<close>

definition sample_prefix :: string where
  "sample_prefix = ''Reliance Industries Limited has announced a significant investment of Rs ''"

definition sample_amount :: string where
  "sample_amount = ''75,000 crores ''"

definition sample_rest :: string where
  "sample_rest = ''in renewable energy projects. The company plans to expand its green energy portfolio with new solar and wind projects. This move is expected to boost the company's growth prospects and align with India's carbon neutrality goals. Market experts have upgraded their rating for RIL stock. Reliance Industries announces major investment in renewable energy sector''"

definition reliance_row :: company_row where
  "reliance_row = \<lparr>row_company_name = ''Reliance Industries'', row_symbol = ''RIL''\<rparr>"

section \<open>Strings and patterns: basic facts\<close>

lemma split_acc_nonempty:
  "cur \<noteq> [] \<or> (\<exists>c\<in>set s. \<not> is_space c) \<Longrightarrow> split_acc cur s \<noteq> []"
  by (induction s arbitrary: cur) auto

lemma split_acc_empty:
  "cur = [] \<Longrightarrow> \<forall>c\<in>set s. is_space c \<Longrightarrow> split_acc cur s = []"
  by (induction s arbitrary: cur) auto

lemma split_eq_Nil_iff: "split s = [] \<longleftrightarrow> (\<forall>c\<in>set s. is_space c)"
  unfolding split_def using split_acc_nonempty [of "[]" s] split_acc_empty [of "[]" s] by blast

lemma all_dropWhile_iff: "(\<forall>x\<in>set (dropWhile P s). P x) \<longleftrightarrow> (\<forall>x\<in>set s. P x)"
  by (induction s) auto

lemma strip_eq_Nil_iff: "strip s = [] \<longleftrightarrow> (\<forall>c\<in>set s. is_space c)"
  by (simp add: strip_def all_dropWhile_iff)

lemma strip_has_word: "strip s \<noteq> [] \<Longrightarrow> \<exists>c\<in>set (strip s). \<not> is_space c"
proof -
  assume ne: "strip s \<noteq> []"
  let ?r = "dropWhile is_space (rev (dropWhile is_space s))"
  from ne have r: "?r \<noteq> []" by (simp add: strip_def)
  then have "\<not> is_space (hd ?r)" by (rule hd_dropWhile)
  moreover from r have "hd ?r \<in> set ?r" by simp
  ultimately show ?thesis by (auto simp: strip_def)
qed

lemma split_strip_nonempty: "strip s \<noteq> [] \<Longrightarrow> split (strip s) \<noteq> []"
  using strip_has_word [of s] by (simp add: split_eq_Nil_iff)

lemma is_space_lower_char: "is_space (lower_char c) = is_space c"
  by (auto simp: lower_char_def is_space_def split: if_splits)

lemma lower_char_dot: "lower_char c = lower_char CHR ''.'' \<Longrightarrow> c = CHR ''.''"
  by (auto simp: lower_char_def split: if_splits)

lemma star_iter_chars:
  assumes f: "\<And>s t. t \<in> set (f s) \<Longrightarrow> \<exists>c. P c \<and> s = c # t"
  shows "t \<in> set (star_iter f n s) \<Longrightarrow> \<exists>d. list_all P d \<and> s = d @ t"
proof (induction n arbitrary: s)
  case 0
  then show ?case by simp
next
  case (Suc n)
  show ?case
  proof (cases "t = s")
    case True
    then show ?thesis by simp
  next
    case False
    with Suc.prems obtain u where u: "u \<in> set (f s)" and t: "t \<in> set (star_iter f n u)"
      by (auto split: if_splits)
    from f [OF u] obtain c where c: "P c" "s = c # u" by blast
    from Suc.IH [OF t] obtain d where "list_all P d" "u = d @ t" by blast
    with c have "list_all P (c # d) \<and> s = (c # d) @ t" by simp
    then show ?thesis by blast
  qed
qed

lemma rm_Digit_step: "t \<in> set (rm Digit s) \<Longrightarrow> \<exists>c. is_digit c \<and> s = c # t"
  by (cases s) (auto split: if_splits)

lemma star_iter_digit:
  "t \<in> set (star_iter (rm Digit) n s) \<Longrightarrow> \<exists>d. list_all is_digit d \<and> s = d @ t"
  by (rule star_iter_chars [of "rm Digit" is_digit]) (rule rm_Digit_step)

lemma rm_plus_digit:
  "t \<in> set (rm (Plus Digit) s) \<Longrightarrow> \<exists>d. d \<noteq> [] \<and> list_all is_digit d \<and> s = d @ t"
proof -
  assume "t \<in> set (rm (Plus Digit) s)"
  then obtain u where "u \<in> set (rm Digit s)"
    and t: "t \<in> set (star_iter (rm Digit) (length u) u)"
    unfolding Plus_def rm.simps by auto
  from rm_Digit_step [OF this(1)] obtain c where s: "s = c # u" and c: "is_digit c" by blast
  from star_iter_digit [OF t] obtain d where "list_all is_digit d" "u = d @ t" by blast
  with s c have "c # d \<noteq> [] \<and> list_all is_digit (c # d) \<and> s = (c # d) @ t" by simp
  then show ?thesis by blast
qed

lemma rm_number:
  assumes "t \<in> set (rm number s)"
  shows "\<exists>d. decimal d \<and> s = d @ t"
proof -
  from assms obtain u where u: "u \<in> set (rm (Plus Digit) s)"
    and t: "t \<in> set (rm (Opt (Seq (Chr CHR ''.'') (Plus Digit))) u)"
    unfolding number_def rm.simps(5) by auto
  from rm_plus_digit [OF u] obtain i where i: "i \<noteq> []" "list_all is_digit i" "s = i @ u"
    by blast
  show ?thesis
  proof (cases "t = u")
    case True
    with i have "decimal i \<and> s = i @ t" by (auto simp: decimal_def)
    then show ?thesis by blast
  next
    case False
    from t False have "t \<in> set (rm (Seq (Chr CHR ''.'') (Plus Digit)) u)"
      unfolding rm.simps(7) by simp
    then obtain v where "v \<in> set (rm (Chr CHR ''.'') u)" and tv: "t \<in> set (rm (Plus Digit) v)"
      unfolding rm.simps(5) by auto
    then obtain c where uv: "u = c # v" and c: "lower_char c = lower_char CHR ''.''"
      by (cases u) (auto split: if_splits)
    from rm_plus_digit [OF tv] obtain f where f: "f \<noteq> []" "list_all is_digit f" "v = f @ t"
      by blast
    from c have "c = CHR ''.''" by (rule lower_char_dot)
    with i f uv have "decimal (i @ CHR ''.'' # f) \<and> s = (i @ CHR ''.'' # f) @ t"
      by (auto simp: decimal_def)
    then show ?thesis by blast
  qed
qed

lemma not_digit_dot: "\<not> is_digit CHR ''.''"
  by (simp add: is_digit_def)

lemma takeWhile_all: "list_all P xs \<Longrightarrow> takeWhile P (xs @ y # ys) = (if P y then xs @ takeWhile P (y # ys) else xs)"
  by (induction xs) auto

lemma float_of_str_decimal: "decimal d \<Longrightarrow> float_of_str d \<noteq> None"
proof -
  assume "decimal d"
  then obtain i f where i: "i \<noteq> []" "list_all is_digit i"
    and d: "d = i \<or> (f \<noteq> [] \<and> list_all is_digit f \<and> d = i @ CHR ''.'' # f)"
    by (auto simp: decimal_def)
  from d show ?thesis
  proof
    assume "d = i"
    with i have "takeWhile is_digit d = i" "dropWhile is_digit d = []"
      by (simp_all add: list_all_iff)
    with i show ?thesis by (simp add: float_of_str_def)
  next
    assume f: "f \<noteq> [] \<and> list_all is_digit f \<and> d = i @ CHR ''.'' # f"
    with i have "takeWhile is_digit d = i" "dropWhile is_digit d = CHR ''.'' # f"
      by (simp_all add: list_all_iff takeWhile_append2 dropWhile_append2 not_digit_dot)
    with i f show ?thesis by (simp add: float_of_str_def)
  qed
qed

lemma first_mem: "(case xs of [] \<Rightarrow> None | m # _ \<Rightarrow> Some m) = Some y \<Longrightarrow> y \<in> set xs"
  by (cases xs) auto

lemma match_at_mem:
  "match_at (pre, grp, suf) s = Some m \<Longrightarrow>
   m \<in> set (concat (map (\<lambda>s1. concat (map (\<lambda>s2. map (\<lambda>s3.
                 (take (length s1 - length s2) s1, length s - length s3))
               (rm suf s2)) (rm grp s1))) (rm pre s)))"
  unfolding match_at_def prod.case by (rule first_mem)

lemma match_at_capture:
  assumes "match_at (pre, grp, suf) s = Some (cap, n)"
  shows "\<exists>s1 s2. s1 \<in> set (rm pre s) \<and> s2 \<in> set (rm grp s1) \<and>
           cap = take (length s1 - length s2) s1"
  using match_at_mem [OF assms] by auto

lemma match_at_suffixed_decimal:
  assumes "match_at (suffixed u) s = Some (cap, n)"
  shows "decimal cap"
proof -
  from assms obtain s2 where "s2 \<in> set (rm number s)" and cap: "cap = take (length s - length s2) s"
    unfolding suffixed_def by (auto dest: match_at_capture)
  from rm_number [OF this(1)] obtain d where "decimal d" "s = d @ s2" by blast
  with cap show ?thesis by simp
qed

lemma findall_from_all_captures:
  "list_all (\<lambda>m. \<exists>t n. match_at p t = Some (m, n)) (findall_from p k s)"
proof (induction p k s rule: findall_from.induct)
  case (1 p skip)
  show ?case
  proof (cases "match_at p []")
    case None
    then show ?thesis by simp
  next
    case (Some r)
    obtain cap n where r: "r = (cap, n)" by (cases r)
    with Some have "\<exists>t n. match_at p t = Some (cap, n)" by blast
    with Some r show ?thesis by simp
  qed
next
  case (2 p skip c cs)
  show ?case
  proof (cases "skip = 0")
    case True
    show ?thesis
    proof (cases "match_at p (c # cs)")
      case None
      with True 2 show ?thesis by simp
    next
      case (Some r)
      obtain cap n where r: "r = (cap, n)" by (cases r)
      with Some have "\<exists>t n. match_at p t = Some (cap, n)" by blast
      with Some r True 2 show ?thesis by simp
    qed
  next
    case False
    with 2 show ?thesis by simp
  qed
qed

lemma findall_from_captures:
  "m \<in> set (findall_from p k s) \<Longrightarrow> \<exists>t n. match_at p t = Some (m, n)"
  using findall_from_all_captures [of p k s] unfolding list_all_iff by blast

lemma floats_total: "\<forall>m\<in>set ms. float_of_str m \<noteq> None \<Longrightarrow> \<exists>xs. floats ms = Inr xs"
  by (induction ms) auto

lemma percentages_total: "\<exists>xs. floats (findall percentage_pattern text) = Inr xs"
proof (rule floats_total, rule ballI)
  fix m assume "m \<in> set (findall percentage_pattern text)"
  then obtain t n where "match_at percentage_pattern t = Some (m, n)"
    unfolding findall_def by (blast dest: findall_from_captures)
  then show "float_of_str m \<noteq> None"
    unfolding percentage_pattern_def by (blast dest: match_at_suffixed_decimal float_of_str_decimal)
qed

lemma extract_financial_info_raises:
  "extract_financial_info text = Inl err \<longleftrightarrow>
     err = ZeroDivisionError \<and> text \<noteq> [] \<and> split text = []"
  using percentages_total [of "text"]
  by (auto simp: extract_financial_info_def Let_def split: if_splits)

section \<open>Scores and categories\<close>




lemma calculate_investment_score_raises:
  "calculate_investment_score e a = Inl err \<longleftrightarrow>
     err = TypeError \<and> (\<exists>t. published_date a = Some (Aware t))"
  by (auto simp: calculate_investment_score_def Let_def split: option.splits datetime.splits)






text \<open>
  Claim C6. The impact category computed by \<^verbatim>\<open>categorize_news_impact\<close> is the result
  of the five branches of the specification, tried in their order, on the numbers of
  positive and negative matches and the sentiment score.
\<close>

theorem categorize_news_impact_ordered_branches:
  "categorize_news_impact kws score =
     ImpactCategory (category_count kws ''positive'') (category_count kws ''negative'') score"
  by (simp add: categorize_news_impact_def ImpactCategory_def category_count_def get_def Let_def)

text \<open>
  Claim C7. Filtering is idempotent: the analyses kept at a threshold, in descending
  order of relevance with ties in their input order, are returned unchanged when they
  are filtered again at that threshold.
\<close>

theorem filter_relevant_articles_idempotent:
  "filter_relevant_articles (filter_relevant_articles analyses m) m =
     filter_relevant_articles analyses m"
  by (simp add: filter_relevant_articles_def Let_def filter_sort sort_key_id_if_sorted)

section \<open>The analysis of one article\<close>

lemma override_None [simp]: "override x None = x"
  by (simp add: override_def)

lemma override_Some [simp]: "override x (Some v) = Some v"
  by (simp add: override_def)

lemma update_published_date: "published_date (update a b) = override (published_date a) (published_date b)"
  by (simp add: update_def)

lemma update_error: "error (update a b) = override (error a) (error b)"
  by (simp add: update_def)

lemma update_investment_score:
  "investment_score (update a b) = override (investment_score a) (investment_score b)"
  by (simp add: update_def)

lemma update_impact_category:
  "impact_category (update a b) = override (impact_category a) (impact_category b)"
  by (simp add: update_def)

lemma update_relevance_score:
  "relevance_score (update a b) = override (relevance_score a) (relevance_score b)"
  by (simp add: update_def)

lemmas update_sel = update_published_date update_error update_investment_score
  update_impact_category update_relevance_score

lemma analyze_sentiment_keys:
  "published_date (analyze_sentiment e t) = None"
  "investment_score (analyze_sentiment e t) = None"
  "impact_category (analyze_sentiment e t) = None"
  "relevance_score (analyze_sentiment e t) = None"
  by (simp_all add: analyze_sentiment_def sentiment_failure_def no_keys_def Let_def
        split: sum.splits prod.splits)

lemma extract_investment_keywords_keys:
  "published_date (extract_investment_keywords e t) = None"
  "error (extract_investment_keywords e t) = None"
  "investment_score (extract_investment_keywords e t) = None"
  "impact_category (extract_investment_keywords e t) = None"
  "relevance_score (extract_investment_keywords e t) = None"
  by (simp_all add: extract_investment_keywords_def no_keys_def Let_def)

lemma match_companies_keys:
  "published_date (match_companies e t df) = None"
  "error (match_companies e t df) = None"
  "investment_score (match_companies e t df) = None"
  "impact_category (match_companies e t df) = None"
  "relevance_score (match_companies e t df) = None"
  by (simp_all add: match_companies_def no_keys_def Let_def)

lemma extract_financial_info_keys:
  assumes "extract_financial_info t = Inr fin"
  shows "published_date fin = None" "error fin = None" "investment_score fin = None"
    "impact_category fin = None" "relevance_score fin = None"
    "\<exists>d. financial_density fin = Some d \<and> 0 \<le> d"
  using assms
  by (auto simp: extract_financial_info_def no_keys_def Let_def split: sum.splits if_splits)

lemma identity_of_keys:
  "published_date (identity_of a) = art_published_date a"
  "error (identity_of a) = None"
  "investment_score (identity_of a) = None"
  "impact_category (identity_of a) = None"
  "relevance_score (identity_of a) = None"
  by (simp_all add: identity_of_def no_keys_def)

lemma content_has_token:
  "extract_text_content a \<noteq> [] \<Longrightarrow> split (extract_text_content a) \<noteq> []"
  unfolding extract_text_content_def Let_def by (rule split_strip_nonempty)

lemma override_left_None [simp]: "override None y = y"
  by (cases y) simp_all

lemma signals_keys:
  assumes "extract_financial_info t = Inr fin"
  shows "published_date (signals e df a fin) = art_published_date a"
    and "error (signals e df a fin) = error (analyze_sentiment e (extract_text_content a))"
proof -
  define c where "c = extract_text_content a"
  define an1 where "an1 = (identity_of a)\<lparr>content_length := Some (length c)\<rparr>"
  define an2 where "an2 = update an1 (analyze_sentiment e c)"
  define an3 where "an3 = update an2 (extract_investment_keywords e c)"
  define an4 where "an4 = (case df of None \<Rightarrow> an3 | Some d \<Rightarrow> update an3 (match_companies e c d))"
  have s: "signals e df a fin = update an4 fin"
    unfolding signals_def Let_def an4_def an3_def an2_def an1_def c_def by (rule refl)
  have 1: "published_date an1 = art_published_date a" "error an1 = None"
    by (simp_all add: an1_def identity_of_keys)
  have 2: "published_date an2 = art_published_date a" "error an2 = error (analyze_sentiment e c)"
    by (simp_all add: an2_def update_sel 1 analyze_sentiment_keys)
  have 3: "published_date an3 = art_published_date a" "error an3 = error (analyze_sentiment e c)"
    by (simp_all add: an3_def update_sel 2 extract_investment_keywords_keys)
  have 4: "published_date an4 = art_published_date a" "error an4 = error (analyze_sentiment e c)"
    by (cases df; simp add: an4_def update_sel 3 match_companies_keys)+
  from extract_financial_info_keys [OF assms]
  show "published_date (signals e df a fin) = art_published_date a"
    and "error (signals e df a fin) = error (analyze_sentiment e (extract_text_content a))"
    by (simp_all add: s update_sel 4 c_def)
qed

lemma analyze_article_short:
  "length (extract_text_content a) < min_article_length \<Longrightarrow>
   analyze_article e df a = Inr ((identity_of a)\<lparr>error := Some ''Insufficient content''\<rparr>)"
  by (simp add: analyze_article_def Let_def)

lemma analyze_article_long:
  assumes "min_article_length \<le> length (extract_text_content a)"
  shows "\<exists>fin. extract_financial_info (extract_text_content a) = Inr fin \<and>
           analyze_article e df a =
             (case calculate_investment_score e (signals e df a fin) of
                Inl err \<Rightarrow> Inl err
              | Inr score \<Rightarrow>
                  (let an = (signals e df a fin)\<lparr>investment_score := Some score\<rparr>;
                       an = an\<lparr>impact_category :=
                                 Some (categorize_news_impact (get (keywords_found an) [])
                                         (get (sentiment_score an) 0))\<rparr>
                   in Inr (an\<lparr>relevance_score := Some (calculate_relevance_score an)\<rparr>)))"
proof -
  from assms have ne: "extract_text_content a \<noteq> []"
    by (auto simp: min_article_length_def)
  then have "split (extract_text_content a) \<noteq> []" by (rule content_has_token)
  with ne obtain fin where fin: "extract_financial_info (extract_text_content a) = Inr fin"
    using extract_financial_info_raises [of "extract_text_content a"]
    by (cases "extract_financial_info (extract_text_content a)") auto
  have "analyze_article e df a =
             (case calculate_investment_score e (signals e df a fin) of
                Inl err \<Rightarrow> Inl err
              | Inr score \<Rightarrow>
                  (let an = (signals e df a fin)\<lparr>investment_score := Some score\<rparr>;
                       an = an\<lparr>impact_category :=
                                 Some (categorize_news_impact (get (keywords_found an) [])
                                         (get (sentiment_score an) 0))\<rparr>
                   in Inr (an\<lparr>relevance_score := Some (calculate_relevance_score an)\<rparr>)))"
    unfolding analyze_article_def signals_def Let_def using assms ne fin by simp
  with fin show ?thesis by blast
qed

lemma strip_id: "s \<noteq> [] \<Longrightarrow> \<not> is_space (hd s) \<Longrightarrow> \<not> is_space (last s) \<Longrightarrow> strip s = s"
proof -
  assume s: "s \<noteq> []" and h: "\<not> is_space (hd s)" and l: "\<not> is_space (last s)"
  from s h have 1: "dropWhile is_space s = s" by (cases s) auto
  from s l have "dropWhile is_space (rev s) = rev s" by (cases "rev s") (auto simp: last_rev)
  with 1 show ?thesis by (simp add: strip_def)
qed

lemma sample_content: "extract_text_content sample_article = sample_text"
proof -
  have "extract_text_content sample_article = strip sample_text"
    by (simp add: extract_text_content_def sample_article_def sample_text_def)
  also have "strip sample_text = sample_text"
    by (rule strip_id) (simp_all add: sample_text_def is_space_def)
  finally show ?thesis .
qed


lemma sample_text_long: "min_article_length \<le> length sample_text"
  by (simp add: sample_text_def min_article_length_def)

lemma sample_long: "min_article_length \<le> length (extract_text_content sample_article)"
  by (simp add: sample_content sample_text_long)



lemma analyze_article_raises:
  "analyze_article e df a = Inl err \<longleftrightarrow>
     err = TypeError \<and> min_article_length \<le> length (extract_text_content a)
     \<and> (\<exists>t. art_published_date a = Some (Aware t))"
proof (cases "length (extract_text_content a) < min_article_length")
  case True
  then show ?thesis by (simp add: analyze_article_short)
next
  case False
  then have long: "min_article_length \<le> length (extract_text_content a)" by simp
  from analyze_article_long [OF long, of e df] obtain fin
    where fin: "extract_financial_info (extract_text_content a) = Inr fin"
      and eq: "analyze_article e df a =
             (case calculate_investment_score e (signals e df a fin) of
                Inl err \<Rightarrow> Inl err
              | Inr score \<Rightarrow>
                  (let an = (signals e df a fin)\<lparr>investment_score := Some score\<rparr>;
                       an = an\<lparr>impact_category :=
                                 Some (categorize_news_impact (get (keywords_found an) [])
                                         (get (sentiment_score an) 0))\<rparr>
                   in Inr (an\<lparr>relevance_score := Some (calculate_relevance_score an)\<rparr>)))"
    by blast
  show ?thesis
  proof (cases "calculate_investment_score e (signals e df a fin)")
    case (Inl x)
    with calculate_investment_score_raises [of e "signals e df a fin" x]
    have "x = TypeError \<and> (\<exists>t. art_published_date a = Some (Aware t))"
      by (simp add: signals_keys [OF fin])
    with Inl eq long show ?thesis by auto
  next
    case (Inr v)
    with calculate_investment_score_raises [of e "signals e df a fin" TypeError]
    have "\<not> (\<exists>t. art_published_date a = Some (Aware t))"
      by (simp add: signals_keys [OF fin])
    with Inr eq show ?thesis by (simp add: Let_def)
  qed
qed








section \<open>Densities\<close>

lemma extract_investment_keywords_density:
  "\<exists>d. keyword_density (extract_investment_keywords e t) = Some d \<and> 0 \<le> d
       \<and> (t = [] \<longrightarrow> d = 0)"
  by (simp add: extract_investment_keywords_def Let_def no_keys_def split_def)

text \<open>
  Claim C3 holds for the keyword density, whose division is guarded by the token count,
  and fails for the financial density, guarded by the truth value of the text: on a text
  that is a single space the division by the token count 0 is reached.
\<close>

theorem extract_financial_info_blank_text:
  "extract_financial_info '' '' = Inl ZeroDivisionError"
  by (simp add: extract_financial_info_raises split_def is_space_def)

section \<open>The batch\<close>






section \<open>Duplicate titles\<close>

lemma title_key_blank: "title_key a = [] \<longleftrightarrow> blank_title a"
  by (simp add: title_key_def blank_title_def strip_eq_Nil_iff lower_def list_all_iff
        is_space_lower_char)

lemma title_key_tokens: "title_key a \<noteq> [] \<Longrightarrow> split (title_key a) \<noteq> []"
  unfolding title_key_def by (rule split_strip_nonempty)

lemma title_similarity_total:
  "split t \<noteq> [] \<Longrightarrow> title_similarity t s = Inr (jaccard t s)"
  by (simp add: title_similarity_def jaccard_def Let_def)

lemma is_duplicate_total:
  "split t \<noteq> [] \<Longrightarrow> is_duplicate t seen = Inr (\<exists>s\<in>set seen. jaccard t s > 0.7)"
  by (induction seen) (auto simp: title_similarity_total)

lemma dedup_loop_append:
  assumes "seen = map title_key u"
  shows "\<exists>u'. dedup_loop u seen xs = Inr u'
              \<and> (\<forall>ys. dedup_loop u seen (xs @ ys) = dedup_loop u' (map title_key u') ys)"
  using assms
proof (induction xs arbitrary: u seen)
  case Nil
  then show ?case by simp
next
  case (Cons x xs)
  show ?case
  proof (cases "title_key x = []")
    case True
    with Cons.IH [OF Cons.prems] show ?thesis by (simp add: title_key_def)
  next
    case False
    then have dup: "is_duplicate (title_key x) seen = Inr (\<exists>s\<in>set seen. jaccard (title_key x) s > 0.7)"
      by (simp add: is_duplicate_total title_key_tokens)
    show ?thesis
    proof (cases "\<exists>s\<in>set seen. jaccard (title_key x) s > 0.7")
      case True
      with False dup Cons.IH [OF Cons.prems] show ?thesis
        by (simp add: title_key_def [symmetric] Let_def)
    next
      case no: False
      from Cons.prems have "seen @ [title_key x] = map title_key (u @ [x])" by simp
      from Cons.IH [OF this] no False dup show ?thesis
        by (simp add: title_key_def [symmetric] Let_def)
    qed
  qed
qed

lemma remove_duplicate_articles_loop: "remove_duplicate_articles xs = dedup_loop [] [] xs"
  by (simp add: remove_duplicate_articles_def)

lemma dedup_loop_nonblank:
  "dedup_loop u seen xs = Inr u' \<Longrightarrow> \<forall>a\<in>set u. \<not> blank_title a \<Longrightarrow> \<forall>a\<in>set u'. \<not> blank_title a"
proof (induction xs arbitrary: u seen)
  case Nil
  then show ?case by simp
next
  case (Cons x xs)
  show ?case
  proof (cases "title_key x = []")
    case True
    with Cons show ?thesis by (simp add: title_key_def [symmetric] Let_def)
  next
    case False
    then have nb: "\<not> blank_title x" by (simp add: title_key_blank)
    from False have dup: "is_duplicate (title_key x) seen = Inr (\<exists>s\<in>set seen. jaccard (title_key x) s > 0.7)"
      by (simp add: is_duplicate_total title_key_tokens)
    show ?thesis
    proof (cases "\<exists>s\<in>set seen. jaccard (title_key x) s > 0.7")
      case True
      with False dup Cons.prems have "dedup_loop u seen xs = Inr u'"
        by (simp add: title_key_def [symmetric] Let_def)
      from Cons.IH [OF this Cons.prems(2)] show ?thesis .
    next
      case no: False
      with False dup Cons.prems have "dedup_loop (u @ [x]) (seen @ [title_key x]) xs = Inr u'"
        by (simp add: title_key_def [symmetric] Let_def)
      moreover from nb Cons.prems(2) have "\<forall>a\<in>set (u @ [x]). \<not> blank_title a" by simp
      ultimately show ?thesis by (rule Cons.IH)
    qed
  qed
qed

text \<open>
  Claim C10. The removal of duplicates returns a list, without raising; no article
  whose title is missing, empty or whitespace only is in it; and when an article is
  added at the end of the input, it is added to the output if its title is not blank and
  the Jaccard similarity of its title to the title of each article kept before it is at
  most 0.7, and otherwise the output is unchanged.
\<close>

theorem remove_duplicate_articles_keeps:
  "\<exists>kept. remove_duplicate_articles articles = Inr kept
     \<and> (\<forall>k\<in>set kept. \<not> blank_title k)
     \<and> remove_duplicate_articles (articles @ [a]) =
         Inr (if \<not> blank_title a
                 \<and> (\<forall>k\<in>set kept. jaccard (title_key a) (title_key k) \<le> 0.7)
              then kept @ [a] else kept)"
proof -
  from dedup_loop_append [of "[]" "[]" articles] obtain kept
    where kept: "dedup_loop [] [] articles = Inr kept"
      and app: "\<And>ys. dedup_loop [] [] (articles @ ys) = dedup_loop kept (map title_key kept) ys"
    by auto
  from dedup_loop_nonblank [OF kept] have nb: "\<forall>k\<in>set kept. \<not> blank_title k" by simp
  have "dedup_loop kept (map title_key kept) [a] =
          Inr (if \<not> blank_title a
                  \<and> (\<forall>k\<in>set kept. jaccard (title_key a) (title_key k) \<le> 0.7)
               then kept @ [a] else kept)"
  proof (cases "title_key a = []")
    case True
    then show ?thesis by (simp add: title_key_def [symmetric] Let_def title_key_blank)
  next
    case False
    then have "is_duplicate (title_key a) (map title_key kept)
                 = Inr (\<exists>s\<in>set (map title_key kept). jaccard (title_key a) s > 0.7)"
      by (simp add: is_duplicate_total title_key_tokens)
    with False show ?thesis
      by (auto simp: title_key_def [symmetric] Let_def title_key_blank not_le)
  qed
  with kept nb app [of "[a]"] show ?thesis
    by (simp add: remove_duplicate_articles_loop)
qed


lemma key_plant1: "title_key (titled ''RIL announces new plant'') = ''ril announces new plant''"
  by (simp add: title_key_def titled_def get_def lower_def lower_char_def strip_def is_space_def)

lemma key_plant2: "title_key (titled ''RIL announces a new plant'') = ''ril announces a new plant''"
  by (simp add: title_key_def titled_def get_def lower_def lower_char_def strip_def is_space_def)

lemma key_deal: "title_key (titled ''TCS wins major deal'') = ''tcs wins major deal''"
  by (simp add: title_key_def titled_def get_def lower_def lower_char_def strip_def is_space_def)

lemma split_plant1: "split ''ril announces new plant'' = [''ril'', ''announces'', ''new'', ''plant'']"
  by (simp add: split_def is_space_def)

lemma split_plant2:
  "split ''ril announces a new plant'' = [''ril'', ''announces'', ''a'', ''new'', ''plant'']"
  by (simp add: split_def is_space_def)

lemma split_deal: "split ''tcs wins major deal'' = [''tcs'', ''wins'', ''major'', ''deal'']"
  by (simp add: split_def is_space_def)

lemma card_plants:
  "card (set [''ril'', ''announces'', ''a'', ''new'', ''plant'']
         \<inter> set [''ril'', ''announces'', ''new'', ''plant'']) = 4"
  "card (set [''ril'', ''announces'', ''a'', ''new'', ''plant'']
         \<union> set [''ril'', ''announces'', ''new'', ''plant'']) = 5"
  by code_simp+

lemma card_deal:
  "card (set [''tcs'', ''wins'', ''major'', ''deal'']
         \<inter> set [''ril'', ''announces'', ''new'', ''plant'']) = 0"
  by code_simp

lemma jaccard_plants: "jaccard ''ril announces a new plant'' ''ril announces new plant'' = 4 / 5"
  unfolding jaccard_def split_plant1 split_plant2 card_plants by simp

lemma jaccard_deal: "jaccard ''tcs wins major deal'' ''ril announces new plant'' = 0"
  unfolding jaccard_def split_plant1 split_deal card_deal by simp

lemma dedup_plant_untitled:
  "remove_duplicate_articles [titled ''RIL announces new plant'', untitled]
     = Inr [titled ''RIL announces new plant'']"
proof -
  have "title_key untitled = []"
    by (simp add: title_key_def untitled_def get_def lower_def strip_def)
  then show ?thesis
    using key_plant1
    by (simp add: remove_duplicate_articles_def title_key_def [symmetric])
qed

theorem remove_duplicate_articles_keeps_witness:
  "remove_duplicate_articles [titled ''RIL announces new plant'', untitled]
     = Inr [titled ''RIL announces new plant'']
   \<and> remove_duplicate_articles
       [titled ''RIL announces new plant'', untitled, titled ''RIL announces a new plant'']
     = Inr [titled ''RIL announces new plant'']
   \<and> remove_duplicate_articles
       [titled ''RIL announces new plant'', untitled, titled ''TCS wins major deal'']
     = Inr [titled ''RIL announces new plant'', titled ''TCS wins major deal'']"
proof -
  have nb: "\<not> blank_title (titled ''RIL announces a new plant'')"
    "\<not> blank_title (titled ''TCS wins major deal'')"
    by (simp_all add: blank_title_def titled_def get_def is_space_def)
  from remove_duplicate_articles_keeps
    [where articles = "[titled ''RIL announces new plant'', untitled]"
       and a = "titled ''RIL announces a new plant''"]
  have 1: "remove_duplicate_articles
       [titled ''RIL announces new plant'', untitled, titled ''RIL announces a new plant'']
     = Inr [titled ''RIL announces new plant'']"
    by (simp add: dedup_plant_untitled key_plant1 key_plant2 jaccard_plants)
  from remove_duplicate_articles_keeps
    [where articles = "[titled ''RIL announces new plant'', untitled]"
       and a = "titled ''TCS wins major deal''"]
  have 2: "remove_duplicate_articles
       [titled ''RIL announces new plant'', untitled, titled ''TCS wins major deal'']
     = Inr [titled ''RIL announces new plant'', titled ''TCS wins major deal'']"
    by (simp add: dedup_plant_untitled key_plant1 key_deal jaccard_deal nb)
  from dedup_plant_untitled 1 2 show ?thesis by simp
qed

section \<open>Company matching\<close>

lemma context_bonus:
  "foldl (\<lambda>c word. if word \<in> W then c + 0.1 else c) c0 ws
     = c0 + 0.1 * real (length (filter (\<lambda>word. word \<in> W) ws))"
  for c0 :: real
  by (induction ws arbitrary: c0) (auto simp: algebra_simps)

lemma calculate_match_confidence_sum:
  "calculate_match_confidence text variant full_name =
     min ((if contains (lower text) (lower variant) then 0.4 else 0)
          + (if contains (lower text) (lower full_name) then 0.3 else 0)
          + 0.1 * real (satisfied_context_words text variant)
          - (if lower variant \<in> set common_words then 0.5 else 0)) 1"
  by (simp add: calculate_match_confidence_def Let_def context_bonus satisfied_context_words_def)

text \<open>
  Claim C8. Between two texts that agree on whether the variant occurs and on whether
  the full name occurs, and for one variant, so that the base, the full-name bonus and
  the penalty are the same, the text with at least as many context words found around
  the variant has at least the confidence of the other, after the cap at 1.
\<close>

theorem confidence_monotone_in_context_words:
  assumes "contains (lower t1) (lower variant) = contains (lower t2) (lower variant)"
    and "contains (lower t1) (lower full_name) = contains (lower t2) (lower full_name)"
    and "satisfied_context_words t1 variant \<le> satisfied_context_words t2 variant"
  shows "calculate_match_confidence t1 variant full_name
           \<le> calculate_match_confidence t2 variant full_name"
proof -
  from assms(3) have "0.1 * real (satisfied_context_words t1 variant)
                        \<le> 0.1 * real (satisfied_context_words t2 variant)"
    by simp
  with assms(1,2) show ?thesis
    unfolding calculate_match_confidence_sum by (intro min.mono) simp_all
qed

theorem confidence_monotone_in_context_words_witness:
  "satisfied_context_words ''Acme rises'' ''Acme'' = 0
   \<and> satisfied_context_words ''Acme company rises'' ''Acme'' = 1
   \<and> calculate_match_confidence ''Acme rises'' ''Acme'' ''Acme Corp''
       \<le> calculate_match_confidence ''Acme company rises'' ''Acme'' ''Acme Corp''"
proof -
  have base: "contains (lower ''Acme rises'') (lower ''Acme'')
                = contains (lower ''Acme company rises'') (lower ''Acme'')"
    by code_simp
  have full: "contains (lower ''Acme rises'') (lower ''Acme Corp'')
                = contains (lower ''Acme company rises'') (lower ''Acme Corp'')"
    by code_simp
  have n: "satisfied_context_words ''Acme rises'' ''Acme'' = 0"
    "satisfied_context_words ''Acme company rises'' ''Acme'' = 1"
    by code_simp+
  then have le: "satisfied_context_words ''Acme rises'' ''Acme''
                   \<le> satisfied_context_words ''Acme company rises'' ''Acme''"
    by simp
  from confidence_monotone_in_context_words [OF base full le] n show ?thesis by simp
qed

lemma scan_variants_find:
  "scan_variants text name ticker variants =
     (case find (accepted text name) variants of
        None \<Rightarrow> None
      | Some variant \<Rightarrow>
          Some \<lparr>symbol = ticker, company_name = name, matched_variant = variant,
                 confidence = calculate_match_confidence text variant name\<rparr>)"
  by (induction variants) (auto simp: accepted_def is_hit_def Let_def)


lemma refinery_variants:
  "extract_company_variants quiet_env ''Federal Oil Refineries''
     = [''FOR'', ''Federal Oil Refineries'', ''federal oil refineries'']"
  by code_simp

lemma refinery_hits:
  "is_hit refinery_text ''FOR''"
  "\<not> is_hit refinery_text ''Federal Oil Refineries''"
  "\<not> is_hit refinery_text ''federal oil refineries''"
  "is_hit refinery_text ''FEDOIL''"
  by code_simp+

lemma refinery_parts:
  "contains (lower refinery_text) (lower ''FOR'')"
  "contains (lower refinery_text) (lower ''FEDOIL'')"
  "\<not> contains (lower refinery_text) (lower ''Federal Oil Refineries'')"
  "satisfied_context_words refinery_text ''FOR'' = 0"
  "satisfied_context_words refinery_text ''FEDOIL'' = 0"
  "lower ''FOR'' \<in> set common_words"
  "lower ''FEDOIL'' \<notin> set common_words"
  by code_simp+

lemma refinery_confidence:
  "calculate_match_confidence refinery_text ''FOR'' ''Federal Oil Refineries'' = - 0.1"
  "calculate_match_confidence refinery_text ''FEDOIL'' ''Federal Oil Refineries'' = 0.4"
  by (simp_all add: calculate_match_confidence_sum refinery_parts)

text \<open>
  Claim C4, as stated, fails. For the company Federal Oil Refineries the first variant
  found in the text is the acronym FOR, a common word, of confidence \<open>- 0.1\<close>; a scan
  that stopped there would record no match. The program goes on and records the match
  of the symbol, the last variant.
\<close>

theorem first_hit_short_circuit_counterexample:
  "scan_first_hit refinery_text ''Federal Oil Refineries'' ''FEDOIL''
     (extract_company_variants quiet_env ''Federal Oil Refineries'' @ [''FEDOIL'']) = None
   \<and> matched_companies (match_companies quiet_env refinery_text [refinery_row])
       = Some [\<lparr>symbol = ''FEDOIL'', company_name = ''Federal Oil Refineries'',
                 matched_variant = ''FEDOIL'', confidence = 0.4\<rparr>]"
proof -
  have 1: "scan_first_hit refinery_text ''Federal Oil Refineries'' ''FEDOIL''
     (extract_company_variants quiet_env ''Federal Oil Refineries'' @ [''FEDOIL'']) = None"
    by (simp add: scan_first_hit_def refinery_variants refinery_hits refinery_confidence)
  have 2: "scan_variants refinery_text ''Federal Oil Refineries'' ''FEDOIL''
     (extract_company_variants quiet_env ''Federal Oil Refineries'' @ [''FEDOIL''])
       = Some \<lparr>symbol = ''FEDOIL'', company_name = ''Federal Oil Refineries'',
                 matched_variant = ''FEDOIL'', confidence = 0.4\<rparr>"
    by (simp add: scan_variants_find accepted_def refinery_variants refinery_hits
          refinery_confidence)
  have "matched_companies (match_companies quiet_env refinery_text [refinery_row])
       = Some [\<lparr>symbol = ''FEDOIL'', company_name = ''Federal Oil Refineries'',
                 matched_variant = ''FEDOIL'', confidence = 0.4\<rparr>]"
    by (simp add: match_companies_def refinery_row_def Let_def 2 no_keys_def)
  with 1 show ?thesis by simp
qed


text \<open>
  Claim C4, amended. The scan of the variants of a company passes over every variant
  that is not found in the text, is not longer than 2 characters or has a confidence of
  at most 0.3; at the first variant found, longer than 2 characters and of confidence
  above 0.3 it records the match with that variant and that confidence, whatever
  variants follow.
\<close>

theorem scan_stops_at_first_accepted_hit:
  assumes "\<forall>v\<in>set skipped. \<not> accepted text name v"
  shows "scan_variants text name ticker (skipped @ variant # rest) =
           (if accepted text name variant
            then Some \<lparr>symbol = ticker, company_name = name, matched_variant = variant,
                       confidence = calculate_match_confidence text variant name\<rparr>
            else scan_variants text name ticker rest)"
  using assms
  by (induction skipped) (auto simp: accepted_def is_hit_def Let_def)

theorem scan_stops_at_first_accepted_hit_witness:
  "is_hit refinery_text ''FOR''
   \<and> \<not> accepted refinery_text ''Federal Oil Refineries'' ''FOR''
   \<and> \<not> accepted refinery_text ''Federal Oil Refineries'' ''Federal Oil Refineries''
   \<and> \<not> accepted refinery_text ''Federal Oil Refineries'' ''federal oil refineries''
   \<and> scan_variants refinery_text ''Federal Oil Refineries'' ''FEDOIL''
         ([''FOR'', ''Federal Oil Refineries'', ''federal oil refineries''] @ ''FEDOIL'' # [])
       = Some \<lparr>symbol = ''FEDOIL'', company_name = ''Federal Oil Refineries'',
                 matched_variant = ''FEDOIL'', confidence = 0.4\<rparr>"
proof -
  have h: "\<forall>v\<in>set [''FOR'', ''Federal Oil Refineries'', ''federal oil refineries''].
             \<not> accepted refinery_text ''Federal Oil Refineries'' v"
    by (simp add: accepted_def refinery_hits refinery_confidence)
  have a: "accepted refinery_text ''Federal Oil Refineries'' ''FEDOIL''"
    by (simp add: accepted_def refinery_hits refinery_confidence)
  from scan_stops_at_first_accepted_hit [OF h, of "''FEDOIL''" "''FEDOIL''" "[]"] h a
  show ?thesis by (simp add: refinery_hits refinery_confidence)
qed

section \<open>The numbers of the sample article\<close>

lemma rm_Star_Digit_Cons:
  "rm (Star Digit) (c # cs) = (if is_digit c then rm (Star Digit) cs @ [c # cs] else [c # cs])"
  by simp

lemma rm_Star_Space_Cons:
  "rm (Star Space) (c # cs) = (if is_space c then rm (Star Space) cs @ [c # cs] else [c # cs])"
  by simp

lemma rm_Star_Nil: "rm (Star r) [] = [[]]"
  by simp

lemma match_at_digit_led_Cons:
  "\<not> is_digit c \<Longrightarrow> match_at (Eps, Seq (Seq Digit r1) r2, suf) (c # cs) = None"
  by (simp add: match_at_def)

lemma match_at_digit_led_Nil: "match_at (Eps, Seq (Seq Digit r1) r2, suf) [] = None"
  by (simp add: match_at_def)

lemma findall_from_digit_led_none:
  "list_all (\<lambda>c. \<not> is_digit c) s \<Longrightarrow> findall_from (Eps, Seq (Seq Digit r1) r2, suf) k s = []"
  by (induction s arbitrary: k) (simp_all add: match_at_digit_led_Cons match_at_digit_led_Nil)

lemma findall_from_digit_led_skip:
  "list_all (\<lambda>c. \<not> is_digit c) a \<Longrightarrow>
   findall_from (Eps, Seq (Seq Digit r1) r2, suf) 0 (a @ s)
     = findall_from (Eps, Seq (Seq Digit r1) r2, suf) 0 s"
  by (induction a) (simp_all add: match_at_digit_led_Cons)

lemma match_at_sign_led_Cons:
  "lower_char c \<noteq> lower_char d \<Longrightarrow> match_at (Seq (Seq (Chr d) r1) r2, grp, suf) (c # cs) = None"
  by (simp add: match_at_def)

lemma match_at_sign_led_Nil: "match_at (Seq (Seq (Chr d) r1) r2, grp, suf) [] = None"
  by (simp add: match_at_def)

lemma findall_from_sign_led_none:
  "list_all (\<lambda>c. lower_char c \<noteq> lower_char d) s \<Longrightarrow>
   findall_from (Seq (Seq (Chr d) r1) r2, grp, suf) k s = []"
  by (induction s arbitrary: k) (simp_all add: match_at_sign_led_Cons match_at_sign_led_Nil)


lemma sample_split: "sample_text = sample_prefix @ sample_amount @ sample_rest"
  by (simp add: sample_text_def sample_prefix_def sample_amount_def sample_rest_def)

lemma sample_prefix_no_digit: "list_all (\<lambda>c. \<not> is_digit c) sample_prefix"
  by (simp add: sample_prefix_def is_digit_def)

lemma sample_rest_no_digit: "list_all (\<lambda>c. \<not> is_digit c) sample_rest"
  by (simp add: sample_rest_def is_digit_def)

lemma findall_sample_digit_led:
  "findall (Eps, Seq (Seq Digit r1) r2, suf) sample_text
     = findall_from (Eps, Seq (Seq Digit r1) r2, suf) 0 (sample_amount @ sample_rest)"
  unfolding findall_def sample_split
  by (rule findall_from_digit_led_skip) (rule sample_prefix_no_digit)

lemmas sample_rest_none = findall_from_digit_led_none [OF sample_rest_no_digit]

lemma sample_text_no_sign:
  "list_all (\<lambda>c. lower_char c \<noteq> lower_char (CHR 0xE2)) sample_text"
  "list_all (\<lambda>c. lower_char c \<noteq> lower_char CHR ''$'') sample_text"
  by (simp_all add: sample_text_def lower_char_def)

lemma findall_sample_text:
  "map (\<lambda>p. findall p sample_text) patterns = [[''000''], [], [], [], [], [], []]"
proof -
  have suffixed: "map (\<lambda>p. findall p sample_text) (take 5 patterns) = [[''000''], [], [], [], []]"
    by (simp add: patterns_def suffixed_def number_def Plus_def Str_def findall_sample_digit_led
        sample_amount_def match_at_def rm_Star_Digit_Cons rm_Star_Space_Cons rm_Star_Nil
        is_digit_def is_space_def lower_char_def sample_rest_none
      del: rm.simps(8))
  have prefixed: "map (\<lambda>p. findall p sample_text) (drop 5 patterns) = [[], []]"
    by (simp add: patterns_def prefixed_def rupee_def Str_def findall_def
          findall_from_sign_led_none [OF sample_text_no_sign(1)]
          findall_from_sign_led_none [OF sample_text_no_sign(2)])
  have "map (\<lambda>p. findall p sample_text) patterns
          = map (\<lambda>p. findall p sample_text) (take 5 patterns)
            @ map (\<lambda>p. findall p sample_text) (drop 5 patterns)"
    by (simp flip: map_append)
  with suffixed prefixed show ?thesis by simp
qed

lemma float_of_zeros: "float_of_str ''000'' = Some 0"
  by (simp add: float_of_str_def digits_val_def digit_val_def is_digit_def)

lemma extract_numbers_from_text_findall:
  "extract_numbers_from_text t =
     concat (map (\<lambda>ms. concat (map (\<lambda>m. case float_of_str (replace m '','' []) of
                                             None \<Rightarrow> [] | Some num \<Rightarrow> [num]) ms))
                 (map (\<lambda>p. findall p t) patterns))"
  by (simp add: extract_numbers_from_text_def comp_def)

lemma sample_numbers: "extract_numbers_from_text sample_text = [0]"
  unfolding extract_numbers_from_text_findall findall_sample_text
  by (simp add: float_of_zeros)

lemma update_financial_numbers:
  "financial_numbers (update a b) = override (financial_numbers a) (financial_numbers b)"
  by (simp add: update_def)

lemma extract_financial_info_numbers:
  "extract_financial_info t = Inr fin \<Longrightarrow> financial_numbers fin = Some (extract_numbers_from_text t)"
  by (auto simp: extract_financial_info_def no_keys_def Let_def split: sum.splits if_splits)

lemma signals_financial_numbers:
  "extract_financial_info t = Inr fin \<Longrightarrow>
   financial_numbers (signals e df a fin) = Some (extract_numbers_from_text t)"
  unfolding signals_def Let_def
  by (simp add: update_financial_numbers extract_financial_info_numbers)

lemma analyze_article_financial_numbers:
  assumes long: "min_article_length \<le> length (extract_text_content a)"
    and r: "analyze_article e df a = Inr r"
  shows "financial_numbers r = Some (extract_numbers_from_text (extract_text_content a))"
proof -
  from analyze_article_long [OF long, of e df] obtain fin
    where fin: "extract_financial_info (extract_text_content a) = Inr fin"
      and eq: "analyze_article e df a =
             (case calculate_investment_score e (signals e df a fin) of
                Inl err \<Rightarrow> Inl err
              | Inr score \<Rightarrow>
                  (let an = (signals e df a fin)\<lparr>investment_score := Some score\<rparr>;
                       an = an\<lparr>impact_category :=
                                 Some (categorize_news_impact (get (keywords_found an) [])
                                         (get (sentiment_score an) 0))\<rparr>
                   in Inr (an\<lparr>relevance_score := Some (calculate_relevance_score an)\<rparr>)))"
    by blast
  from eq r obtain v where v: "calculate_investment_score e (signals e df a fin) = Inr v"
    by (cases "calculate_investment_score e (signals e df a fin)") auto
  from eq r v have "financial_numbers r = financial_numbers (signals e df a fin)"
    by (auto simp: Let_def)
  with signals_financial_numbers [OF fin] show ?thesis by simp
qed

text \<open>
  Claim C2 fails on its financial numbers. In the sample article the amount is written
  \<^verbatim>\<open>Rs 75,000 crores\<close>: the patterns with a unit admit no thousands separator in
  the number, so the one with \<^verbatim>\<open>crores\<close> matches from the digits after the comma and
  captures \<^verbatim>\<open>000\<close>; the patterns that admit separators need a currency sign, and the
  text has none. Whatever the estimator, the analysis is returned and its financial
  numbers are the list of the single number 0, which does not hold 75000.
\<close>

theorem sample_article_financial_numbers:
  "\<not> isl (analyze_article e (Some [reliance_row]) sample_article)
   \<and> financial_numbers (projr (analyze_article e (Some [reliance_row]) sample_article)) = Some [0]"
proof -
  have "\<not> isl (analyze_article e (Some [reliance_row]) sample_article)"
  proof
    assume "isl (analyze_article e (Some [reliance_row]) sample_article)"
    then obtain x where "analyze_article e (Some [reliance_row]) sample_article = Inl x"
      by (cases "analyze_article e (Some [reliance_row]) sample_article") auto
    then show False by (simp add: analyze_article_raises sample_article_def)
  qed
  then obtain r where r: "analyze_article e (Some [reliance_row]) sample_article = Inr r"
    by (cases "analyze_article e (Some [reliance_row]) sample_article") auto
  from analyze_article_financial_numbers [OF sample_long r] r show ?thesis
    by (simp add: sample_content sample_numbers)
qed

end
